theory Spec2Isabelle
  imports Complex_Main "HOL-Library.Log_Nat"
begin

section \<open>HEDO: gesture control of a vehicle through two data gloves\<close>

text \<open>
  The development follows \<^verbatim>\<open>HEDO.py\<close>. A Python float is the rational number it
  stands for. The gesture rules compute with these rationals exactly; the calibration,
  whose bound is met by whole numbers of degrees, rounds the difference it compares to
  double precision as the machine does. Everything the program does to the outside world
  (SDK calls to the gloves, HTTP requests to the vehicle, output, sleeping) is appended to
  a trace, in program order.
\<close>

subsection \<open>Effects\<close>

text \<open>
  An SDK call names the function of the glove SDK and its arguments after the handle:
  \<open>SelectHapticWave actuator wave\<close>, \<open>SendHaptic actuator note amplitude\<close>. A request
  names the endpoint (the path below \<open>/api/\<close> of the client's base URL), the bearer
  token of its \<open>Authorization\<close> header if it has one, and the JSON body it posts; a
  request without a body is a GET. Of each body the entries that vary are kept:
  \<open>AuthRequest client_id requested_level commandeer credentials\<close>,
  \<open>StatusArgs sessionId streamSettings\<close> (the five other status arguments are
  constants), \<open>Command command\<close> and \<open>FaultOverride override_on fault_active\<close>.
\<close>

datatype hand = leftHand | rightHand

datatype sdk_call =
    SelectHapticWave nat nat
  | SendHaptic nat nat rat
  | SilenceHaptics
  | GetFingersNormalized
  | GetEulerAngles
  | CalibrateFlat
  | HomeIMU

datatype client_call = Takeoff | Land

datatype glove_exception = GloveDisconnectedException

record stream_config =
  source :: string
  port :: nat

datatype endpoint =
    authentication
  | status
  | async_command
  | active_faults
  | set_fault_override nat

datatype payload =
    AuthRequest string nat bool "string option"
  | StatusArgs "string option" "stream_config option"
  | Command string
  | FaultOverride bool bool

record http_request =
  path :: endpoint
  authorization :: "string option"
  json_data :: "payload option"

datatype event =
    Sdk hand sdk_call
  | Raised glove_exception
  | Client client_call
  | Request http_request
  | Stdout string
  | Stderr string
  | Sleep rat

record io =
  trace :: "event list"

definition emit :: "event \<Rightarrow> 'a io_scheme \<Rightarrow> 'a io_scheme" where
  "emit e w = w\<lparr>trace := trace w @ [e]\<rparr>"

definition fmt_out :: "string \<Rightarrow> 'a io_scheme \<Rightarrow> 'a io_scheme" where
  "fmt_out s = emit (Stdout s)"

definition fmt_err :: "string \<Rightarrow> 'a io_scheme \<Rightarrow> 'a io_scheme" where
  "fmt_err s = emit (Stderr s)"

definition print :: "string \<Rightarrow> 'a io_scheme \<Rightarrow> 'a io_scheme" where
  "print s = emit (Stdout (s @ ''\<newline>''))"

definition sleep :: "rat \<Rightarrow> 'a io_scheme \<Rightarrow> 'a io_scheme" where
  "sleep t = emit (Sleep t)"

text \<open>
  A statement that may raise: it returns the exception (\<open>Inl\<close>) or its value (\<open>Inr\<close>),
  and the state it leaves behind in both cases.
\<close>

type_synonym ('e, 's, 'a) stmt = "'s \<Rightarrow> ('e + 'a) \<times> 's"

definition ret :: "'a \<Rightarrow> ('e, 's, 'a) stmt" where
  "ret x s = (Inr x, s)"

definition io :: "('s \<Rightarrow> 's) \<Rightarrow> ('e, 's, unit) stmt" where
  "io f s = (Inr (), f s)"

definition bind_stmt :: "('e, 's, 'a) stmt \<Rightarrow> ('a \<Rightarrow> ('e, 's, 'b) stmt) \<Rightarrow> ('e, 's, 'b) stmt" where
  "bind_stmt m f s = (case m s of (Inl e, s') \<Rightarrow> (Inl e, s') | (Inr x, s') \<Rightarrow> f x s')"

fun seq :: "('e, 's, unit) stmt list \<Rightarrow> ('e, 's, unit) stmt" where
  "seq [] = ret ()"
| "seq (m # ms) = bind_stmt m (\<lambda>_. seq ms)"

subsection \<open>The gesture rules\<close>

text \<open>
  \<open>round(x, 4)\<close> of Python 3: to the nearest multiple of \<open>10\<^sup>-\<^sup>4\<close>, a tie going to
  the even one.
\<close>

definition round_half_even :: "rat \<Rightarrow> int" where
  "round_half_even q =
     (let f = \<lfloor>q\<rfloor>; d = q - of_int f
      in if d < 1 / 2 then f else if 1 / 2 < d then f + 1 else if even f then f else f + 1)"

definition py_round :: "rat \<Rightarrow> nat \<Rightarrow> rat" where
  "py_round x ndigits = of_int (round_half_even (x * 10 ^ ndigits)) / 10 ^ ndigits"

text \<open>
  The values one loop iteration works on: the five flexions after rounding (\<open>Lthumb\<close>
  ... \<open>Lpinky\<close>, \<open>Rthumb\<close> ... \<open>Rpinky\<close>) and the three angles (\<open>XL, YL, ZL\<close>,
  \<open>XR, YR, ZR\<close>). The spec's pitch is \<open>X\<close> and its yaw is \<open>Y\<close>.
\<close>

record snapshot =
  thumb :: rat
  index :: rat
  middle :: rat
  ring :: rat
  pinky :: rat
  X :: rat
  Y :: rat
  Z :: rat

type_synonym fingers = "rat \<times> rat \<times> rat \<times> rat \<times> rat"
type_synonym angles = "rat \<times> rat \<times> rat"

fun snapshot_of :: "fingers \<Rightarrow> angles \<Rightarrow> snapshot" where
  "snapshot_of (f0, f1, f2, f3, f4) (e0, e1, e2) =
     \<lparr>thumb = py_round f0 4, index = py_round f1 4, middle = py_round f2 4,
      ring = py_round f3 4, pinky = py_round f4 4, X = e2, Y = e0, Z = e1\<rparr>"

definition hand_sum :: "snapshot \<Rightarrow> rat" where
  "hand_sum s = thumb s + index s + middle s + ring s + pinky s"

definition left_thumbs_up :: "snapshot \<Rightarrow> bool" where
  "left_thumbs_up s \<longleftrightarrow>
     index s - thumb s \<ge> 0.243 \<and> middle s - thumb s \<ge> 0.243 \<and> ring s - thumb s \<ge> 0.243
     \<and> pinky s - thumb s \<ge> 0.243 \<and> Y s \<ge> 60"

definition right_thumbs_up :: "snapshot \<Rightarrow> bool" where
  "right_thumbs_up s \<longleftrightarrow>
     index s - thumb s \<ge> 0.243 \<and> middle s - thumb s \<ge> 0.243 \<and> ring s - thumb s \<ge> 0.243
     \<and> pinky s - thumb s \<ge> 0.243 \<and> Y s \<le> - 60"

definition peace :: "snapshot \<Rightarrow> bool" where
  "peace s \<longleftrightarrow>
     ring s - middle s \<ge> 0.243 \<and> pinky s - index s \<ge> 0.243 \<and> thumb s \<ge> 0.04049"

definition go_bulls :: "snapshot \<Rightarrow> bool" where
  "go_bulls s \<longleftrightarrow>
     middle s - index s \<ge> 0.243 \<and> ring s - pinky s \<ge> 0.243 \<and> index s \<le> 0.243
     \<and> pinky s \<le> 0.243 \<and> (0 \<ge> X s \<and> X s \<ge> - 120) \<and> (25 \<ge> Y s \<and> Y s \<ge> - 25)"

definition halt :: "snapshot \<Rightarrow> bool" where
  "halt s \<longleftrightarrow>
     thumb s \<ge> 0.12146 \<and> index s \<ge> 0.243 \<and> middle s \<ge> 0.243 \<and> hand_sum s \<ge> 2.22672
     \<and> (0 \<ge> X s \<and> X s \<ge> - 120) \<and> (25 \<ge> Y s \<and> Y s \<ge> - 25)"

definition left_land :: "snapshot \<Rightarrow> bool" where
  "left_land s \<longleftrightarrow>
     thumb s \<le> 0.080972 \<and> index s \<le> 0.080972 \<and> middle s \<le> 0.080972 \<and> ring s \<le> 0.080972
     \<and> pinky s \<le> 0.080972 \<and> (- 25 \<le> X s \<and> X s \<le> 25) \<and> (- 25 \<le> Y s \<and> Y s \<le> 25)"

definition right_land :: "snapshot \<Rightarrow> bool" where
  "right_land s \<longleftrightarrow>
     thumb s \<le> 0.080972 \<and> index s \<le> 0.080972 \<and> middle s \<le> 0.080972 \<and> ring s \<le> 0.080972
     \<and> pinky s \<le> 0.080972 \<and> (- 25 \<le> X s \<and> X s \<le> 25) \<and> (- 15 \<le> Y s \<and> Y s \<le> 25)"

datatype gesture = THUMBS_UP | PEACE | GO_BULLS | HALT | LAND | NONE

text \<open>The \<open>if\<close>/\<open>elif\<close> chain of each hand: the first rule that holds names the gesture.\<close>

definition left_gesture :: "snapshot \<Rightarrow> gesture" where
  "left_gesture s =
     (if left_thumbs_up s then THUMBS_UP
      else if peace s then PEACE
      else if go_bulls s then GO_BULLS
      else if halt s then HALT
      else if left_land s then LAND
      else NONE)"

definition right_gesture :: "snapshot \<Rightarrow> gesture" where
  "right_gesture s =
     (if right_thumbs_up s then THUMBS_UP
      else if peace s then PEACE
      else if go_bulls s then GO_BULLS
      else if halt s then HALT
      else if right_land s then LAND
      else NONE)"

definition open_palm :: snapshot where
  "open_palm = \<lparr>thumb = 0, index = 0, middle = 0, ring = 0, pinky = 0, X = 0, Y = 0, Z = 0\<rparr>"

subsection \<open>The gloves\<close>

text \<open>
  What the SDK answers to one call: whether the glove is still connected (if not, the call
  raises \<open>GloveDisconnectedException\<close>), and the sensor values a read returns. The array
  of \<open>Forte_GetFingersNormalized\<close> has five entries and that of
  \<open>Forte_GetEulerAngles\<close> three. \<open>glove w k\<close> is the answer to the \<open>k\<close>-th SDK call
  of the run, \<open>calls w\<close> the number of calls made so far.
\<close>

record reading =
  connected :: bool
  flexion :: fingers
  euler :: angles

record gloves = io +
  glove :: "nat \<Rightarrow> reading"
  calls :: nat

type_synonym ('s, 'a) glove_stmt = "(glove_exception, 's, 'a) stmt"

definition forte :: "hand \<Rightarrow> sdk_call \<Rightarrow> ('a gloves_scheme, reading) glove_stmt" where
  "forte h c w =
     (let r = glove w (calls w);
          w' = emit (Sdk h c) (w\<lparr>calls := Suc (calls w)\<rparr>)
      in if connected r then (Inr r, w')
         else (Inl GloveDisconnectedException, emit (Raised GloveDisconnectedException) w'))"

definition forte_unit :: "hand \<Rightarrow> sdk_call \<Rightarrow> ('a gloves_scheme, unit) glove_stmt" where
  "forte_unit h c = bind_stmt (forte h c) (\<lambda>_. ret ())"

definition Forte_SelectHapticWave :: "hand \<Rightarrow> nat \<Rightarrow> nat \<Rightarrow> ('a gloves_scheme, unit) glove_stmt" where
  "Forte_SelectHapticWave h i wave = forte_unit h (SelectHapticWave i wave)"

definition Forte_SendHaptic :: "hand \<Rightarrow> nat \<Rightarrow> nat \<Rightarrow> rat \<Rightarrow> ('a gloves_scheme, unit) glove_stmt" where
  "Forte_SendHaptic h i n a = forte_unit h (SendHaptic i n a)"

definition Forte_SilenceHaptics :: "hand \<Rightarrow> ('a gloves_scheme, unit) glove_stmt" where
  "Forte_SilenceHaptics h = forte_unit h SilenceHaptics"

definition Forte_CalibrateFlat :: "hand \<Rightarrow> ('a gloves_scheme, unit) glove_stmt" where
  "Forte_CalibrateFlat h = forte_unit h CalibrateFlat"

definition Forte_HomeIMU :: "hand \<Rightarrow> ('a gloves_scheme, unit) glove_stmt" where
  "Forte_HomeIMU h = forte_unit h HomeIMU"

definition Forte_GetFingersNormalized :: "hand \<Rightarrow> ('a gloves_scheme, fingers) glove_stmt" where
  "Forte_GetFingersNormalized h = bind_stmt (forte h GetFingersNormalized) (\<lambda>r. ret (flexion r))"

definition Forte_GetEulerAngles :: "hand \<Rightarrow> ('a gloves_scheme, angles) glove_stmt" where
  "Forte_GetEulerAngles h = bind_stmt (forte h GetEulerAngles) (\<lambda>r. ret (euler r))"

text \<open>The module-level \<open>note\<close> and \<open>amplitude\<close>.\<close>

definition haptic_note :: nat where
  "haptic_note = 60"

definition amplitude :: rat where
  "amplitude = 1"

text \<open>
  The loops call into the HTTP client (\<open>client.takeoff()\<close>, \<open>client.land()\<close>); the call
  is recorded here, and what the client then does is the subject of the next subsection.
\<close>

definition client_takeoff :: "'a io_scheme \<Rightarrow> 'a io_scheme" where
  "client_takeoff = emit (Client Takeoff)"

definition client_land :: "'a io_scheme \<Rightarrow> 'a io_scheme" where
  "client_land = emit (Client Land)"

subsection \<open>The input loop of each hand\<close>

text \<open>The body of the inner \<open>try\<close> of \<open>left_hand\<close>.\<close>

definition left_hand_try :: "('a gloves_scheme, unit) glove_stmt" where
  "left_hand_try =
     bind_stmt (seq (map (\<lambda>i. Forte_SelectHapticWave leftHand i 15) [0..<6])) (\<lambda>_.
     bind_stmt (Forte_GetFingersNormalized leftHand) (\<lambda>leftfingers.
     bind_stmt (Forte_GetEulerAngles leftHand) (\<lambda>leftIMU.
       let s = snapshot_of leftfingers leftIMU in
       if left_thumbs_up s then
         seq [io (print ''THUMBS UP''),
              Forte_SendHaptic leftHand 0 haptic_note amplitude,
              Forte_SendHaptic leftHand 5 haptic_note amplitude,
              io (sleep 0.1),
              Forte_SilenceHaptics leftHand,
              io (sleep 2)]
       else if peace s then
         seq [io (print ''PEACE''),
              Forte_SendHaptic leftHand 1 haptic_note amplitude,
              Forte_SendHaptic leftHand 2 haptic_note amplitude,
              io (sleep 0.1),
              Forte_SilenceHaptics leftHand,
              io (print ''Sentry Mode Active''),
              io (sleep 2)]
       else if go_bulls s then
         seq [io (print ''GO BULLS''),
              Forte_SendHaptic leftHand 1 haptic_note amplitude,
              Forte_SendHaptic leftHand 4 haptic_note amplitude,
              io (sleep 0.1),
              Forte_SilenceHaptics leftHand,
              io (sleep 2)]
       else if halt s then
         seq [io (print ''HALT''),
              Forte_SendHaptic leftHand 5 haptic_note amplitude,
              io (sleep 0.1),
              Forte_SilenceHaptics leftHand,
              io (sleep 2)]
       else if left_land s then
         seq [io (print ''LAND''),
              seq (map (\<lambda>i. Forte_SendHaptic leftHand i haptic_note amplitude) [0..<6]),
              io (sleep 0.1),
              Forte_SilenceHaptics leftHand,
              io (print ''LANDING''),
              io client_land,
              io (sleep 2)]
       else ret ())))"

text \<open>The body of the inner \<open>try\<close> of \<open>right_hand\<close>.\<close>

definition right_hand_try :: "('a gloves_scheme, unit) glove_stmt" where
  "right_hand_try =
     bind_stmt (seq (map (\<lambda>i. Forte_SelectHapticWave rightHand i 15) [0..<6])) (\<lambda>_.
     bind_stmt (Forte_GetFingersNormalized rightHand) (\<lambda>rightfingers.
     bind_stmt (Forte_GetEulerAngles rightHand) (\<lambda>rightIMU.
       let s = snapshot_of rightfingers rightIMU in
       if right_thumbs_up s then
         seq [io (print ''THUMBS UP''),
              Forte_SendHaptic rightHand 0 haptic_note amplitude,
              Forte_SendHaptic rightHand 5 haptic_note amplitude,
              io (sleep 0.1),
              Forte_SilenceHaptics rightHand,
              io (print ''TAKING OFF''),
              io client_takeoff,
              io (sleep 2)]
       else if peace s then
         seq [io (print ''PEACE''),
              Forte_SendHaptic rightHand 1 haptic_note amplitude,
              Forte_SendHaptic rightHand 2 haptic_note amplitude,
              io (sleep 0.1),
              Forte_SilenceHaptics rightHand,
              io (print ''Sentry Mode Active''),
              io (sleep 2)]
       else if go_bulls s then
         seq [io (print ''GO BULLS''),
              Forte_SendHaptic rightHand 1 haptic_note amplitude,
              Forte_SendHaptic rightHand 4 haptic_note amplitude,
              io (sleep 0.1),
              Forte_SilenceHaptics rightHand,
              io (sleep 2)]
       else if halt s then
         seq [io (print ''HALT''),
              Forte_SendHaptic rightHand 5 haptic_note amplitude,
              io (sleep 0.1),
              Forte_SilenceHaptics rightHand,
              io (sleep 2)]
       else if right_land s then
         seq [io (print ''LAND''),
              seq (map (\<lambda>i. Forte_SendHaptic rightHand i haptic_note amplitude) [0..<6]),
              io (sleep 0.1),
              Forte_SilenceHaptics rightHand,
              io (print ''LANDING''),
              io client_land,
              io (sleep 2)]
       else ret ())))"

text \<open>
  The handler of \<open>GloveDisconnectedException\<close>, the same for both hands, and one turn of
  \<open>while True\<close>: the \<open>try\<close> body, then the handler if the body raised.
\<close>

definition on_disconnect :: "'a gloves_scheme \<Rightarrow> 'a gloves_scheme" where
  "on_disconnect w = client_land (sleep 1 (print ''Gloves are disconnected...'' w))"

definition left_hand_iteration :: "'a gloves_scheme \<Rightarrow> 'a gloves_scheme" where
  "left_hand_iteration w =
     (case left_hand_try w of
        (Inr _, w') \<Rightarrow> w'
      | (Inl GloveDisconnectedException, w') \<Rightarrow> on_disconnect w')"

definition right_hand_iteration :: "'a gloves_scheme \<Rightarrow> 'a gloves_scheme" where
  "right_hand_iteration w =
     (case right_hand_try w of
        (Inr _, w') \<Rightarrow> w'
      | (Inl GloveDisconnectedException, w') \<Rightarrow> on_disconnect w')"

text \<open>
  \<open>while True\<close> has no exit of its own (the operator's interrupt, which ends the thread,
  is not part of the model): \<open>left_hand n\<close> is the loop up to the end of its \<open>n\<close>-th turn.
\<close>

fun left_hand :: "nat \<Rightarrow> 'a gloves_scheme \<Rightarrow> 'a gloves_scheme" where
  "left_hand 0 w = w"
| "left_hand (Suc n) w = left_hand n (left_hand_iteration w)"

fun right_hand :: "nat \<Rightarrow> 'a gloves_scheme \<Rightarrow> 'a gloves_scheme" where
  "right_hand 0 w = w"
| "right_hand (Suc n) w = right_hand n (right_hand_iteration w)"

text \<open>The events a stretch of the run appended to the trace.\<close>

definition events_since :: "'a io_scheme \<Rightarrow> 'b io_scheme \<Rightarrow> event list" where
  "events_since w w' = drop (length (trace w)) (trace w')"

text \<open>
  Whether an event is a call to a glove, and how often \<open>client.land()\<close> is called before
  the next call to a glove. \<open>failsafe\<close> holds of a stretch of the run when every
  disconnection in it is followed by exactly one \<open>client.land()\<close> before the next call
  to a glove.
\<close>

fun is_sdk :: "event \<Rightarrow> bool" where
  "is_sdk (Sdk h c) = True"
| "is_sdk e = False"

fun lands_before_poll :: "event list \<Rightarrow> nat" where
  "lands_before_poll [] = 0"
| "lands_before_poll (e # es) =
     (if is_sdk e then 0 else (if e = Client Land then 1 else 0) + lands_before_poll es)"

fun failsafe :: "event list \<Rightarrow> bool" where
  "failsafe [] = True"
| "failsafe (e # es) =
     ((e = Raised GloveDisconnectedException \<longrightarrow> lands_before_poll es = 1) \<and> failsafe es)"

subsection \<open>Calibration\<close>

text \<open>
  The difference of two floats is the exact difference rounded to the nearest double, a
  tie going to the even significand: \<open>ilog2 x\<close> is the exponent of \<open>x\<close>, the largest
  \<open>e\<close> with \<open>2\<^sup>e \<le> \<bar>x\<bar>\<close>, and a double has 53 significant bits. Angles are far from the
  range where a double overflows or loses bits.
\<close>

definition ilog2 :: "rat \<Rightarrow> int" where
  "ilog2 x =
     (case quotient_of \<bar>x\<bar> of (p, q) \<Rightarrow>
        let d = bitlen p - bitlen q in if 2 powi d \<le> \<bar>x\<bar> then d else d - 1)"

definition fl64 :: "rat \<Rightarrow> rat" where
  "fl64 x = (if x = 0 then 0
             else let u = 2 powi (ilog2 x - 52) in of_int (round_half_even (x / u)) * u)"

definition float_sub :: "rat \<Rightarrow> rat \<Rightarrow> rat" where
  "float_sub a b = fl64 (a - b)"










subsection \<open>The HTTP client\<close>

text \<open>
  The \<open>data\<close> dictionary of a reply, seen through the keys the client reads; a key that
  is absent is \<open>None\<close>. \<open>faults\<close> lists the name and the \<open>relevant\<close> flag of each
  entry of the \<open>faults\<close> dictionary. A request that does not come back with such a
  dictionary (no connection, a 4XX or 5XX status, a body that does not decode) raises.
\<close>

record vehicle_reply =
  accessLevel :: "string option"
  accessToken :: "string option"
  sessionId :: "string option"
  flightPhase :: "string option"
  faults :: "(string \<times> bool) list"

datatype http_result = Failure | Data vehicle_reply

datatype client_exception = RequestException | KeyError | SystemExit nat

text \<open>
  The \<open>HTTPClient\<close> object together with what it talks to: \<open>vehicle w rs\<close> is the
  vehicle's answer to the last request of \<open>rs\<close>, given all requests \<open>rs\<close> made so far,
  and \<open>files w\<close> holds the content of each file that exists.
\<close>

record client = io +
  client_id :: string
  baseurl :: string
  access_token :: "string option"
  session_id :: "string option"
  access_level :: "string option"
  stream_settings :: "stream_config option"
  vehicle :: "http_request list \<Rightarrow> http_result"
  files :: "string \<rightharpoonup> string"

type_synonym ('s, 'a) client_stmt = "(client_exception, 's, 'a) stmt"

fun requests_of :: "event list \<Rightarrow> http_request list" where
  "requests_of [] = []"
| "requests_of (Request r # es) = r # requests_of es"
| "requests_of (e # es) = requests_of es"

text \<open>Python's truth value of an optional string: \<open>None\<close> and \<open>''\<close> are false.\<close>

fun truthy :: "string option \<Rightarrow> bool" where
  "truthy None = False"
| "truthy (Some s) = (s \<noteq> [])"

definition py_isspace :: "char \<Rightarrow> bool" where
  "py_isspace c = (let n = (of_char c :: nat) in (9 \<le> n \<and> n \<le> 13) \<or> (28 \<le> n \<and> n \<le> 32))"

definition strip :: "string \<Rightarrow> string" where
  "strip s = rev (dropWhile py_isspace (rev (dropWhile py_isspace s)))"

fun join :: "string \<Rightarrow> string list \<Rightarrow> string" where
  "join sep [] = []"
| "join sep [x] = x"
| "join sep (x # y # ys) = x @ sep @ join sep (y # ys)"

fun str :: "string option \<Rightarrow> string" where
  "str None = ''None''"
| "str (Some s) = s"

definition request_json :: "endpoint \<Rightarrow> payload option \<Rightarrow> ('a client_scheme, vehicle_reply) client_stmt" where
  "request_json ep body w =
     (let w' = emit (Request \<lparr>path = ep,
                              authorization = (if truthy (access_token w) then access_token w else None),
                              json_data = body\<rparr>) w
      in case vehicle w' (requests_of (trace w')) of
           Failure \<Rightarrow> (Inl RequestException, w')
         | Data reply \<Rightarrow> (Inr reply, w'))"

text \<open>\<open>_authenticate\<close>: \<open>sys.exit(1)\<close> raises \<open>SystemExit\<close>.\<close>

definition authenticate :: "bool \<Rightarrow> string option \<Rightarrow> ('a client_scheme, unit) client_stmt" where
  "authenticate pilot token_file w =
     (case (if truthy token_file
            then (case files w (the token_file) of
                    None \<Rightarrow> Inl (fmt_err (''Token file does not exist: '' @ the token_file @ ''\<newline>'') w)
                  | Some token \<Rightarrow> Inr (Some (strip token)))
            else Inr None) of
        Inl w' \<Rightarrow> (Inl (SystemExit 1), w')
      | Inr credentials \<Rightarrow>
          (case request_json authentication
                  (Some (AuthRequest (client_id w) (if pilot then 8 else 4) True credentials)) w of
             (Inl e, w1) \<Rightarrow> (Inl e, w1)
           | (Inr response, w1) \<Rightarrow>
               (let w2 = w1\<lparr>access_level := accessLevel response\<rparr> in
                if pilot \<and> access_level w2 \<noteq> Some ''PILOT''
                then (Inl (SystemExit 1), fmt_err ''Did not successfully auth as pilot\<newline>'' w2)
                else (let w3 = w2\<lparr>access_token := accessToken response\<rparr>
                      in (Inr (), fmt_out (''Received access token:\<newline>'' @ str (access_token w3) @ ''\<newline>'') w3)))))"

text \<open>
  \<open>__init__\<close>. \<open>uuid\<close> is the value of \<open>str(uuid4())\<close>, used when no \<open>client_id\<close> is
  given.
\<close>

definition init :: "string \<Rightarrow> string option \<Rightarrow> bool \<Rightarrow> string option \<Rightarrow> stream_config option \<Rightarrow> string
    \<Rightarrow> ('a client_scheme, unit) client_stmt" where
  "init url cid pilot token_file settings uuid w =
     authenticate pilot token_file
       (w\<lparr>client_id := (if truthy cid then the cid else uuid),
          baseurl := url,
          access_token := None,
          session_id := None,
          access_level := None,
          stream_settings := settings\<rparr>)"

definition update_pilot_status :: "('a client_scheme, vehicle_reply) client_stmt" where
  "update_pilot_status w =
     (case request_json status
             (Some (StatusArgs (if truthy (session_id w) then session_id w else None)
                               (stream_settings w))) w of
        (Inl e, w1) \<Rightarrow> (Inl e, w1)
      | (Inr response, w1) \<Rightarrow>
          (case sessionId response of
             None \<Rightarrow> (Inl KeyError, w1)
           | Some sid \<Rightarrow> (Inr response, w1\<lparr>session_id := Some sid\<rparr>)))"

definition get_blocking_faults :: "('a client_scheme, string list) client_stmt" where
  "get_blocking_faults =
     bind_stmt (request_json active_faults None) (\<lambda>response.
     ret (map fst (filter snd (faults response))))"

text \<open>
  The two faults of \<open>disable_faults\<close>, \<open>LOST_PHONE_COMMS_SHORT\<close> (2) and
  \<open>LOST_PHONE_COMMS_LONG\<close> (3), in the order of the dictionary that holds them.
\<close>

definition disable_faults :: "('a client_scheme, unit) client_stmt" where
  "disable_faults =
     seq (map (\<lambda>fault_id.
            bind_stmt (request_json (set_fault_override fault_id) (Some (FaultOverride True False)))
              (\<lambda>_. ret ()))
          [2, 3])"

text \<open>
  The \<open>while True\<close> of \<open>takeoff\<close>. The result \<open>None\<close> is a loop that never ends; an
  exception leaves the loop with \<open>Inl\<close>.
\<close>

partial_function (option) takeoff_loop ::
    "'a client_scheme \<Rightarrow> ((client_exception + unit) \<times> 'a client_scheme) option" where
  "takeoff_loop w =
     (case update_pilot_status (sleep 2 w) of
        (Inl e, w1) \<Rightarrow> Some (Inl e, w1)
      | (Inr response, w1) \<Rightarrow>
          (let phase = flightPhase response in
           if \<not> truthy phase then takeoff_loop w1
           else if phase = Some ''READY_FOR_GROUND_TAKEOFF'' then
             (case request_json async_command (Some (Command ''ground_takeoff''))
                     (fmt_out ''Publishing ground takeoff\<newline>'' w1) of
                (Inl e, w2) \<Rightarrow> Some (Inl e, w2)
              | (Inr _, w2) \<Rightarrow> takeoff_loop w2)
           else if phase = Some ''FLYING'' then Some (Inr (), fmt_out ''Flying.\<newline>'' w1)
           else if phase = Some ''REST'' then takeoff_loop (fmt_out ''on standby\<newline>'' w1)
           else if phase = Some ''FLIGHT_PROCESSES_CHECK'' then
             takeoff_loop (fmt_out ''Pre-Flight Check in progress\<newline>'' w1)
           else if phase = Some ''PREP'' then takeoff_loop (fmt_out ''Calibrating Cameras\<newline>'' w1)
           else if phase = Some ''LOGGING_START'' then
             takeoff_loop (fmt_out ''Initializing flight logs\<newline>'' w1)
           else
             (case get_blocking_faults w1 of
                (Inl e, w2) \<Rightarrow> Some (Inl e, w2)
              | (Inr names, w2) \<Rightarrow>
                  takeoff_loop (fmt_out (''Faults = '' @ join '','' names @ ''\<newline>'') w2))))"

definition takeoff :: "'a client_scheme \<Rightarrow> ((client_exception + unit) \<times> 'a client_scheme) option" where
  "takeoff w =
     (if access_level w \<noteq> Some ''PILOT'' then Some (Inr (), fmt_err ''Cannot takeoff: not pilot\<newline>'' w)
      else
        (case update_pilot_status w of
           (Inl e, w1) \<Rightarrow> Some (Inl e, w1)
         | (Inr _, w1) \<Rightarrow>
             (case disable_faults w1 of
                (Inl e, w2) \<Rightarrow> Some (Inl e, w2)
              | (Inr _, w2) \<Rightarrow> takeoff_loop w2)))"

text \<open>The \<open>while phase == 'FLYING'\<close> of \<open>land\<close>, with the current value of \<open>phase\<close>.\<close>

partial_function (option) land_loop ::
    "string \<Rightarrow> 'a client_scheme \<Rightarrow> ((client_exception + unit) \<times> 'a client_scheme) option" where
  "land_loop phase w =
     (if phase = ''FLYING'' then
        (case request_json async_command (Some (Command ''land'')) (fmt_out ''Sending LAND\<newline>'' w) of
           (Inl e, w1) \<Rightarrow> Some (Inl e, w1)
         | (Inr _, w1) \<Rightarrow>
             (case update_pilot_status (sleep 1 w1) of
                (Inl e, w2) \<Rightarrow> Some (Inl e, w2)
              | (Inr response, w2) \<Rightarrow>
                  (let new_phase = flightPhase response in
                   if \<not> truthy new_phase then land_loop phase w2
                   else land_loop (the new_phase) w2)))
      else Some (Inr (), w))"

definition land :: "'a client_scheme \<Rightarrow> ((client_exception + unit) \<times> 'a client_scheme) option" where
  "land w =
     (if access_level w \<noteq> Some ''PILOT'' then Some (Inr (), fmt_err ''Cannot land: not pilot\<newline>'' w)
      else land_loop ''FLYING'' w)"

subsection \<open>Start of the process\<close>

text \<open>
  The module creates the client before anything else: \<open>OSError\<close> (which the exceptions of
  the HTTP library are) is caught and the process leaves through \<open>exit()\<close>; any other
  exception ends the process where it was raised, \<open>SystemExit\<close> with its own status.
  Only when the client exists does the module go on to start the keep-alive thread, the
  calibration and the two input loops.
\<close>

datatype process = Exited nat | Started

definition create_client :: "string \<Rightarrow> 'a client_scheme \<Rightarrow> process \<times> 'a client_scheme" where
  "create_client uuid w =
     (case init ''http://192.168.10.1'' None True None (Some \<lparr>source = ''NATIVE'', port = 55004\<rparr>) uuid w of
        (Inl RequestException, w') \<Rightarrow> (Exited 0, print ''Failed to connect to drone! Exiting...'' w')
      | (Inl KeyError, w') \<Rightarrow> (Exited 1, w')
      | (Inl (SystemExit c), w') \<Rightarrow> (Exited c, w')
      | (Inr _, w') \<Rightarrow> (Started, w'))"

text \<open>
  The vehicle of a scripted run: its answer to the \<open>k\<close>-th status request carries the
  \<open>k\<close>-th phase of the script, it accepts every other request with an empty dictionary,
  and it is gone once the script is used up.
\<close>

definition empty_reply :: vehicle_reply where
  "empty_reply =
     \<lparr>accessLevel = None, accessToken = None, sessionId = None, flightPhase = None, faults = []\<rparr>"

definition scripted_vehicle :: "string list \<Rightarrow> http_request list \<Rightarrow> http_result" where
  "scripted_vehicle phases rs =
     (if rs = [] then Failure
      else if path (last rs) = status then
        (let k = length (filter (\<lambda>r. path r = status) rs) - 1
         in if k < length phases
            then Data (empty_reply\<lparr>sessionId := Some ''session'', flightPhase := Some (phases ! k)\<rparr>)
            else Failure)
      else Data empty_reply)"

text \<open>The commands posted to \<open>async_command\<close> and the endpoints requested, in order.\<close>

fun command_of :: "http_request \<Rightarrow> string list" where
  "command_of r = (case json_data r of Some (Command c) \<Rightarrow> [c] | _ \<Rightarrow> [])"

definition commands_of :: "event list \<Rightarrow> string list" where
  "commands_of es = concat (map command_of (requests_of es))"

definition endpoints_of :: "event list \<Rightarrow> endpoint list" where
  "endpoints_of es = map path (requests_of es)"

text \<open>
  Reading the result of a call that may not return: whether it returned normally, and the
  state it returned in.
\<close>

definition returned :: "(('e + 'a) \<times> 's) option \<Rightarrow> bool" where
  "returned r = (case r of Some (Inr _, _) \<Rightarrow> True | _ \<Rightarrow> False)"

definition after :: "(('e + 'a) \<times> 's) option \<Rightarrow> 's" where
  "after r = snd (the r)"

subsection \<open>Runs and shapes used in the statements\<close>

text \<open>
  The gloves answer the next \<open>n\<close> SDK calls: none of them raises.
\<close>

definition connected_during :: "nat \<Rightarrow> 'a gloves_scheme \<Rightarrow> bool" where
  "connected_during n w = (\<forall>k. calls w \<le> k \<and> k < calls w + n \<longrightarrow> connected (glove w k))"





text \<open>
  Shapes of what a statement appends to the trace. \<open>quiet\<close>: no disconnection. \<open>tidy\<close>: a
  statement only appends, and a disconnection is the last thing it appends, exactly when it
  raises. \<open>polls_first\<close>: the first thing a statement does is call a glove. \<open>turn_shape\<close>:
  what one turn of an input loop appends.
\<close>

definition quiet :: "event list \<Rightarrow> bool" where
  "quiet es = (Raised GloveDisconnectedException \<notin> set es)"

definition tidy :: "('a gloves_scheme, 'b) glove_stmt \<Rightarrow> bool" where
  "tidy m = (\<forall>w. \<exists>es. trace (snd (m w)) = trace w @ es \<and>
      (case fst (m w) of
         Inr _ \<Rightarrow> quiet es
       | Inl _ \<Rightarrow> es \<noteq> [] \<and> last es = Raised GloveDisconnectedException \<and> quiet (butlast es)))"

definition polls_first :: "('a gloves_scheme, 'b) glove_stmt \<Rightarrow> bool" where
  "polls_first m = (\<forall>w. \<exists>h c es. trace (snd (m w)) = trace w @ Sdk h c # es)"

definition turn_shape :: "event list \<Rightarrow> bool" where
  "turn_shape a = (a \<noteq> [] \<and> is_sdk (hd a) \<and>
     (quiet a \<or> (\<exists>a'. quiet a' \<and>
        a = a' @ [Raised GloveDisconnectedException, Stdout ''Gloves are disconnected...\<newline>'',
                  Sleep 1, Client Land])))"

text \<open>Clients in front of a scripted vehicle, with and without pilot access.\<close>

definition flying_client :: client where
  "flying_client =
     \<lparr>trace = [], client_id = ''glove-pilot'', baseurl = ''http://192.168.10.1'',
      access_token = Some ''token'', session_id = None, access_level = Some ''PILOT'',
      stream_settings = Some \<lparr>source = ''NATIVE'', port = 55004\<rparr>,
      vehicle = scripted_vehicle [''FLYING'', ''FLYING'', ''REST''], files = Map.empty\<rparr>"

definition grounded_client :: client where
  "grounded_client =
     \<lparr>trace = [], client_id = ''glove-pilot'', baseurl = ''http://192.168.10.1'',
      access_token = Some ''token'', session_id = None, access_level = Some ''PILOT'',
      stream_settings = Some \<lparr>source = ''NATIVE'', port = 55004\<rparr>,
      vehicle = scripted_vehicle
        [''REST'', ''PREP'', ''READY_FOR_GROUND_TAKEOFF'', ''READY_FOR_GROUND_TAKEOFF'', ''FLYING''],
      files = Map.empty\<rparr>"

definition phone_client :: client where
  "phone_client =
     \<lparr>trace = [], client_id = ''glove-pilot'', baseurl = ''http://192.168.10.1'',
      access_token = Some ''token'', session_id = Some ''session'', access_level = Some ''PHONE'',
      stream_settings = None, vehicle = scripted_vehicle [''FLYING''], files = Map.empty\<rparr>"

text \<open>
  The request \<open>_authenticate\<close> posts for the module's client, a vehicle that grants
  phone access only, and the state before \<open>__init__\<close>.
\<close>

definition pilot_request :: "string \<Rightarrow> http_request" where
  "pilot_request uuid =
     \<lparr>path = authentication, authorization = None,
      json_data = Some (AuthRequest uuid 8 True None)\<rparr>"

definition phone_vehicle :: "http_request list \<Rightarrow> http_result" where
  "phone_vehicle rs =
     Data (empty_reply\<lparr>accessLevel := Some ''PHONE'', accessToken := Some ''token''\<rparr>)"

definition booting :: client where
  "booting =
     \<lparr>trace = [], client_id = [], baseurl = [], access_token = None, session_id = None,
      access_level = None, stream_settings = None, vehicle = phone_vehicle, files = Map.empty\<rparr>"

text \<open>
  Gloves that hold a thumbs-up (thumb straight, four fingers curled, hand turned by 70
  degrees to the side of each hand's rule), and gloves held flat of which the eighth SDK
  call finds the glove gone.
\<close>

definition thumbs_up_left :: gloves where
  "thumbs_up_left =
     \<lparr>trace = [],
      glove = (\<lambda>k. \<lparr>connected = True, flexion = (0, 0.3, 0.3, 0.3, 0.3), euler = (70, 0, 0)\<rparr>),
      calls = 0\<rparr>"

definition thumbs_up_right :: gloves where
  "thumbs_up_right =
     \<lparr>trace = [],
      glove = (\<lambda>k. \<lparr>connected = True, flexion = (0, 0.3, 0.3, 0.3, 0.3), euler = (- 70, 0, 0)\<rparr>),
      calls = 0\<rparr>"

definition dropout :: gloves where
  "dropout =
     \<lparr>trace = [],
      glove = (\<lambda>k. \<lparr>connected = (k \<noteq> 7), flexion = (0, 0, 0, 0, 0), euler = (0, 90, 0)\<rparr>),
      calls = 0\<rparr>"



definition within_ten :: "angles \<Rightarrow> angles \<Rightarrow> bool" where
  "within_ten a b =
     (case (a, b) of ((y, z, x), (y', z', x')) \<Rightarrow>
        \<bar>float_sub x x'\<bar> \<le> 10 \<and> \<bar>float_sub y y'\<bar> \<le> 10 \<and> \<bar>float_sub z z'\<bar> \<le> 10)"








section \<open>Properties\<close>

subsection \<open>Gestures\<close>

lemmas rule_defs = left_thumbs_up_def right_thumbs_up_def peace_def go_bulls_def halt_def
  left_land_def right_land_def hand_sum_def

lemma py_round_zero: "py_round 0 n = 0"
  by (simp add: py_round_def round_half_even_def)

lemma left_thumbs_up_iff: "left_gesture s = THUMBS_UP \<longleftrightarrow> left_thumbs_up s"
  by (simp add: left_gesture_def)

lemma right_thumbs_up_iff: "right_gesture s = THUMBS_UP \<longleftrightarrow> right_thumbs_up s"
  by (simp add: right_gesture_def)

text \<open>
  Claim C8. The fully open palm (all five flexions 0.0, orientation 0, 0, 0) is the
  snapshot \<open>open_palm\<close>; both hands classify it as LAND, their LAND rules hold of it, and
  no rule of THUMBS_UP, PEACE, GO_BULLS or HALT does.
\<close>

theorem open_palm_land_only:
  "snapshot_of (0, 0, 0, 0, 0) (0, 0, 0) = open_palm
   \<and> left_gesture open_palm = LAND \<and> right_gesture open_palm = LAND
   \<and> left_land open_palm \<and> right_land open_palm
   \<and> \<not> left_thumbs_up open_palm \<and> \<not> right_thumbs_up open_palm
   \<and> \<not> peace open_palm \<and> \<not> go_bulls open_palm \<and> \<not> halt open_palm"
  by (simp add: open_palm_def left_gesture_def right_gesture_def rule_defs py_round_zero)

text \<open>
  Claim C2, as amended. For a snapshot whose flexions are not negative, the left hand
  classifies it as LAND exactly when all five flexions are at most 0.080972 and pitch
  and yaw both lie within -25 to +25 degrees; the right hand classifies it as LAND exactly
  when all five flexions are at most 0.080972, pitch lies within -25 to +25 degrees and
  yaw lies within -15 to +25 degrees. The flexions are those of the snapshot, rounded to
  four places as the loops do.
\<close>

theorem land_rule_of_each_hand:
  assumes "0 \<le> thumb s" and "0 \<le> index s" and "0 \<le> middle s" and "0 \<le> ring s" and "0 \<le> pinky s"
  shows "(left_gesture s = LAND \<longleftrightarrow>
            thumb s \<le> 0.080972 \<and> index s \<le> 0.080972 \<and> middle s \<le> 0.080972
            \<and> ring s \<le> 0.080972 \<and> pinky s \<le> 0.080972
            \<and> - 25 \<le> X s \<and> X s \<le> 25 \<and> - 25 \<le> Y s \<and> Y s \<le> 25)
       \<and> (right_gesture s = LAND \<longleftrightarrow>
            thumb s \<le> 0.080972 \<and> index s \<le> 0.080972 \<and> middle s \<le> 0.080972
            \<and> ring s \<le> 0.080972 \<and> pinky s \<le> 0.080972
            \<and> - 25 \<le> X s \<and> X s \<le> 25 \<and> - 15 \<le> Y s \<and> Y s \<le> 25)"
proof -
  have l: "left_land s \<Longrightarrow> \<not> left_thumbs_up s \<and> \<not> peace s \<and> \<not> go_bulls s \<and> \<not> halt s"
    using assms by (simp add: rule_defs)
  have r: "right_land s \<Longrightarrow> \<not> right_thumbs_up s \<and> \<not> peace s \<and> \<not> go_bulls s \<and> \<not> halt s"
    using assms by (simp add: rule_defs)
  have "left_gesture s = LAND \<longleftrightarrow> left_land s"
    using l by (auto simp: left_gesture_def)
  moreover have "right_gesture s = LAND \<longleftrightarrow> right_land s"
    using r by (auto simp: right_gesture_def)
  ultimately show ?thesis
    by (simp add: left_land_def right_land_def)
qed

theorem land_rule_of_each_hand_witness:
  "left_gesture \<lparr>thumb = 0.05, index = 0.08, middle = 0, ring = 0.0809, pinky = 0.01, X = 25, Y = - 15, Z = 90\<rparr> = LAND
   \<and> right_gesture \<lparr>thumb = 0.05, index = 0.08, middle = 0, ring = 0.0809, pinky = 0.01, X = 25, Y = - 15, Z = 90\<rparr> = LAND
   \<and> right_gesture \<lparr>thumb = 0.05, index = 0.08, middle = 0, ring = 0.0809, pinky = 0.01, X = 25, Y = - 16, Z = 90\<rparr> \<noteq> LAND"
  using land_rule_of_each_hand [of "\<lparr>thumb = 0.05, index = 0.08, middle = 0, ring = 0.0809, pinky = 0.01, X = 25, Y = - 15, Z = 90\<rparr>"]
    land_rule_of_each_hand [of "\<lparr>thumb = 0.05, index = 0.08, middle = 0, ring = 0.0809, pinky = 0.01, X = 25, Y = - 16, Z = 90\<rparr>"]
  by simp

text \<open>
  The snapshot of claim C2 itself, all flexions 0 and yaw -20 degrees: LAND on the left
  hand, no gesture on the right.
\<close>

theorem right_land_yaw_counterexample:
  "left_gesture \<lparr>thumb = 0, index = 0, middle = 0, ring = 0, pinky = 0, X = 0, Y = - 20, Z = 0\<rparr> = LAND
   \<and> right_gesture \<lparr>thumb = 0, index = 0, middle = 0, ring = 0, pinky = 0, X = 0, Y = - 20, Z = 0\<rparr> = NONE"
  by (simp add: left_gesture_def right_gesture_def rule_defs)

subsection \<open>Landing and taking off\<close>

lemma requests_of_append: "requests_of (a @ b) = requests_of a @ requests_of b"
  by (induction a rule: requests_of.induct) simp_all

lemmas client_defs = request_json_def update_pilot_status_def emit_def fmt_out_def fmt_err_def
  sleep_def print_def scripted_vehicle_def empty_reply_def requests_of_append
  events_since_def commands_of_def endpoints_of_def

text \<open>
  Claim C1, as amended. With pilot access and a vehicle whose status replies carry the
  phases FLYING, FLYING, REST, \<open>land\<close> posts exactly three \<open>land\<close> commands, one before each
  of its three status polls, and returns on the poll that reads REST.
\<close>

theorem land_scripted:
  fixes w :: "'a client_scheme"
  assumes "access_level w = Some ''PILOT''"
    and "vehicle w = scripted_vehicle [''FLYING'', ''FLYING'', ''REST'']"
    and "requests_of (trace w) = []"
  shows "\<exists>w'. land w = Some (Inr (), w')
    \<and> commands_of (events_since w w') = [''land'', ''land'', ''land'']
    \<and> endpoints_of (events_since w w')
        = [async_command, status, async_command, status, async_command, status]"
  unfolding land_def using assms
  apply (simp split del: if_split)
  apply (subst land_loop.simps, simp add: client_defs split del: if_split)
  apply (subst land_loop.simps, simp add: client_defs split del: if_split)
  apply (subst land_loop.simps, simp add: client_defs split del: if_split)
  apply (subst land_loop.simps, simp add: client_defs split del: if_split)
  done

theorem land_scripted_witness:
  "\<exists>w'. land flying_client = Some (Inr (), w')
     \<and> commands_of (events_since flying_client w') = [''land'', ''land'', ''land'']
     \<and> endpoints_of (events_since flying_client w')
         = [async_command, status, async_command, status, async_command, status]"
  using land_scripted [of flying_client]
  by (simp add: flying_client_def)

text \<open>
  The run of claim C1: \<open>land\<close> returns, having posted three \<open>land\<close> commands, not two.
\<close>

theorem land_two_commands_counterexample:
  "returned (land flying_client)
   \<and> commands_of (trace (after (land flying_client))) = [''land'', ''land'', ''land'']
   \<and> length (commands_of (trace (after (land flying_client)))) \<noteq> 2"
proof -
  have "\<exists>w'. land flying_client = Some (Inr (), w')
          \<and> commands_of (trace w') = [''land'', ''land'', ''land'']"
    unfolding land_def flying_client_def
    apply simp
    apply (subst land_loop.simps, simp add: client_defs)
    apply (subst land_loop.simps, simp add: client_defs)
    apply (subst land_loop.simps, simp add: client_defs)
    apply (subst land_loop.simps, simp add: client_defs)
    done
  then show ?thesis
    by (auto simp: returned_def after_def)
qed

text \<open>
  Claim C6. With pilot access and a vehicle whose status replies carry the phases REST,
  PREP, READY_FOR_GROUND_TAKEOFF, READY_FOR_GROUND_TAKEOFF, FLYING, \<open>takeoff\<close> returns,
  having posted exactly two \<open>ground_takeoff\<close> commands, one right after each poll that read
  READY_FOR_GROUND_TAKEOFF, and nothing after the poll that read FLYING. The first reply
  answers the status refresh that precedes the fault overrides.
\<close>

theorem takeoff_scripted:
  fixes w :: "'a client_scheme"
  assumes "access_level w = Some ''PILOT''"
    and "vehicle w = scripted_vehicle
           [''REST'', ''PREP'', ''READY_FOR_GROUND_TAKEOFF'', ''READY_FOR_GROUND_TAKEOFF'', ''FLYING'']"
    and "requests_of (trace w) = []"
  shows "\<exists>w'. takeoff w = Some (Inr (), w')
    \<and> commands_of (events_since w w') = [''ground_takeoff'', ''ground_takeoff'']
    \<and> endpoints_of (events_since w w')
        = [status, set_fault_override 2, set_fault_override 3, status, status,
           async_command, status, async_command, status]"
  unfolding takeoff_def using assms
  apply (simp add: client_defs disable_faults_def bind_stmt_def ret_def split del: if_split)
  apply (subst takeoff_loop.simps, simp add: client_defs split del: if_split)
  apply (subst takeoff_loop.simps, simp add: client_defs split del: if_split)
  apply (subst takeoff_loop.simps, simp add: client_defs split del: if_split)
  apply (subst takeoff_loop.simps, simp add: client_defs split del: if_split)
  done

theorem takeoff_scripted_witness:
  "\<exists>w'. takeoff grounded_client = Some (Inr (), w')
    \<and> commands_of (events_since grounded_client w') = [''ground_takeoff'', ''ground_takeoff'']
    \<and> endpoints_of (events_since grounded_client w')
        = [status, set_fault_override 2, set_fault_override 3, status, status,
           async_command, status, async_command, status]"
  using takeoff_scripted [of grounded_client]
  by (simp add: grounded_client_def)

text \<open>
  Claim C7, as amended. When the access level is not PILOT, \<open>takeoff\<close> raises nothing:
  it writes \<open>Cannot takeoff: not pilot\<close> to the error stream and returns normally.
  Nothing else happens: the trace gains no status refresh, no fault override and no
  command, and every field of the session is as before.
\<close>

theorem takeoff_not_pilot:
  "access_level w \<noteq> Some ''PILOT''
   \<Longrightarrow> takeoff w = Some (Inr (), w\<lparr>trace := trace w @ [Stderr ''Cannot takeoff: not pilot\<newline>'']\<rparr>)"
  by (simp add: takeoff_def fmt_err_def emit_def)

theorem takeoff_not_pilot_witness:
  "takeoff phone_client = Some (Inr (), phone_client\<lparr>trace := [Stderr ''Cannot takeoff: not pilot\<newline>'']\<rparr>)
   \<and> takeoff (phone_client\<lparr>access_level := None\<rparr>)
       = Some (Inr (), phone_client\<lparr>access_level := None, trace := [Stderr ''Cannot takeoff: not pilot\<newline>'']\<rparr>)"
  using takeoff_not_pilot [of phone_client] takeoff_not_pilot [of "phone_client\<lparr>access_level := None\<rparr>"]
  by (simp add: phone_client_def)

text \<open>
  A session with phone access: \<open>takeoff\<close> does not fail, it returns normally, and it has
  made no request.
\<close>

theorem takeoff_refusal_returns_counterexample:
  "returned (takeoff phone_client)
   \<and> requests_of (trace (after (takeoff phone_client))) = []"
  by (simp add: takeoff_def phone_client_def returned_def after_def fmt_err_def emit_def)

text \<open>
  Claim C10. When the access level is not PILOT, \<open>land\<close> returns at once: it writes
  \<open>Cannot land: not pilot\<close> to the error stream and does nothing else, so no \<open>land\<close>
  command is posted and no status poll is made. The fail-safe of the input loops calls
  this same \<open>land\<close>.
\<close>

theorem land_not_pilot:
  "access_level w \<noteq> Some ''PILOT''
   \<Longrightarrow> land w = Some (Inr (), w\<lparr>trace := trace w @ [Stderr ''Cannot land: not pilot\<newline>'']\<rparr>)"
  by (simp add: land_def fmt_err_def emit_def)

theorem land_not_pilot_witness:
  "land phone_client = Some (Inr (), phone_client\<lparr>trace := [Stderr ''Cannot land: not pilot\<newline>'']\<rparr>)"
  using land_not_pilot [of phone_client]
  by (simp add: phone_client_def)

subsection \<open>Authentication\<close>

text \<open>
  Claim C5. The module asks for pilot access. When the vehicle's reply to that request
  grants any other access level (or none), the process exits with status 1: the client is
  never created, so nothing after it starts, and the only request ever made is the
  authentication itself.
\<close>

theorem pilot_not_granted_is_fatal:
  fixes w :: "'a client_scheme"
  assumes "vehicle w (requests_of (trace w) @ [pilot_request uuid]) = Data reply"
    and "accessLevel reply \<noteq> Some ''PILOT''"
  shows "create_client uuid w =
           (Exited 1,
            w\<lparr>client_id := uuid, baseurl := ''http://192.168.10.1'', access_token := None,
              session_id := None, access_level := accessLevel reply,
              stream_settings := Some \<lparr>source = ''NATIVE'', port = 55004\<rparr>,
              trace := trace w @ [Request (pilot_request uuid),
                                  Stderr ''Did not successfully auth as pilot\<newline>'']\<rparr>)"
  using assms
  by (simp add: create_client_def init_def authenticate_def request_json_def emit_def fmt_err_def
      pilot_request_def requests_of_append)

theorem pilot_not_granted_is_fatal_witness:
  "create_client ''0b5e'' booting =
     (Exited 1,
      booting\<lparr>client_id := ''0b5e'', baseurl := ''http://192.168.10.1'',
        access_level := Some ''PHONE'',
        stream_settings := Some \<lparr>source = ''NATIVE'', port = 55004\<rparr>,
        trace := [Request (pilot_request ''0b5e''),
                  Stderr ''Did not successfully auth as pilot\<newline>'']\<rparr>)"
  using pilot_not_granted_is_fatal [of booting "''0b5e''"
      "empty_reply\<lparr>accessLevel := Some ''PHONE'', accessToken := Some ''token''\<rparr>"]
  by (simp add: booting_def phone_vehicle_def empty_reply_def)

subsection \<open>The input loops\<close>

lemma upt_6: "[0..<6] = [0, 1, 2, 3, 4, 5]"
  by (simp add: upt_rec)

lemma forte_connected:
  "connected (glove w (calls w))
   \<Longrightarrow> forte h c w = (Inr (glove w (calls w)), w\<lparr>calls := Suc (calls w), trace := trace w @ [Sdk h c]\<rparr>)"
  by (simp add: forte_def emit_def)

lemmas sdk_defs = Forte_SelectHapticWave_def Forte_SendHaptic_def Forte_SilenceHaptics_def
  Forte_CalibrateFlat_def Forte_HomeIMU_def Forte_GetFingersNormalized_def
  Forte_GetEulerAngles_def forte_unit_def

lemmas io_defs = io_def print_def sleep_def client_land_def client_takeoff_def emit_def

text \<open>
  Claim C3, as amended. In a turn of the right hand's loop during which the glove stays
  connected and whose snapshot classifies as THUMBS_UP, the loop gives the haptic
  acknowledgement and then calls \<open>client.takeoff()\<close>. The left hand's loop, in such a turn,
  gives the haptic acknowledgement and calls nothing on the client.
\<close>

theorem thumbs_up_dispatch:
  fixes w :: "'a gloves_scheme"
  assumes "connected_during 11 w"
  shows "(right_gesture (snapshot_of (flexion (glove w (calls w + 6))) (euler (glove w (calls w + 7))))
            = THUMBS_UP \<longrightarrow>
          events_since w (right_hand_iteration w) =
            map (\<lambda>i. Sdk rightHand (SelectHapticWave i 15)) [0..<6] @
            [Sdk rightHand GetFingersNormalized, Sdk rightHand GetEulerAngles,
             Stdout ''THUMBS UP\<newline>'',
             Sdk rightHand (SendHaptic 0 60 1), Sdk rightHand (SendHaptic 5 60 1),
             Sleep 0.1, Sdk rightHand SilenceHaptics,
             Stdout ''TAKING OFF\<newline>'', Client Takeoff, Sleep 2])
       \<and> (left_gesture (snapshot_of (flexion (glove w (calls w + 6))) (euler (glove w (calls w + 7))))
            = THUMBS_UP \<longrightarrow>
          events_since w (left_hand_iteration w) =
            map (\<lambda>i. Sdk leftHand (SelectHapticWave i 15)) [0..<6] @
            [Sdk leftHand GetFingersNormalized, Sdk leftHand GetEulerAngles,
             Stdout ''THUMBS UP\<newline>'',
             Sdk leftHand (SendHaptic 0 60 1), Sdk leftHand (SendHaptic 5 60 1),
             Sleep 0.1, Sdk leftHand SilenceHaptics, Sleep 2])"
proof -
  have c: "\<And>k. calls w \<le> k \<Longrightarrow> k < calls w + 11 \<Longrightarrow> connected (glove w k)"
    using assms by (simp add: connected_during_def)
  have n: "calls w + 6 = Suc (Suc (Suc (Suc (Suc (Suc (calls w))))))"
    "calls w + 7 = Suc (Suc (Suc (Suc (Suc (Suc (Suc (calls w)))))))"
    by simp_all
  show ?thesis
    unfolding right_thumbs_up_iff left_thumbs_up_iff n
    by (simp add: right_hand_iteration_def right_hand_try_def left_hand_iteration_def left_hand_try_def
        upt_6 bind_stmt_def ret_def sdk_defs forte_connected c io_defs events_since_def
        haptic_note_def amplitude_def)
qed

theorem thumbs_up_dispatch_witness:
  "events_since thumbs_up_right (right_hand_iteration thumbs_up_right) =
     map (\<lambda>i. Sdk rightHand (SelectHapticWave i 15)) [0..<6] @
     [Sdk rightHand GetFingersNormalized, Sdk rightHand GetEulerAngles,
      Stdout ''THUMBS UP\<newline>'',
      Sdk rightHand (SendHaptic 0 60 1), Sdk rightHand (SendHaptic 5 60 1),
      Sleep 0.1, Sdk rightHand SilenceHaptics,
      Stdout ''TAKING OFF\<newline>'', Client Takeoff, Sleep 2]
   \<and> events_since thumbs_up_left (left_hand_iteration thumbs_up_left) =
     map (\<lambda>i. Sdk leftHand (SelectHapticWave i 15)) [0..<6] @
     [Sdk leftHand GetFingersNormalized, Sdk leftHand GetEulerAngles,
      Stdout ''THUMBS UP\<newline>'',
      Sdk leftHand (SendHaptic 0 60 1), Sdk leftHand (SendHaptic 5 60 1),
      Sleep 0.1, Sdk leftHand SilenceHaptics, Sleep 2]"
proof -
  have "right_gesture (snapshot_of (0, 0.3, 0.3, 0.3, 0.3) (- 70, 0, 0)) = THUMBS_UP"
    and "left_gesture (snapshot_of (0, 0.3, 0.3, 0.3, 0.3) (70, 0, 0)) = THUMBS_UP"
    by code_simp+
  then show ?thesis
    using thumbs_up_dispatch [of thumbs_up_right] thumbs_up_dispatch [of thumbs_up_left]
    by (simp add: thumbs_up_right_def thumbs_up_left_def connected_during_def)
qed

text \<open>
  A turn of the left hand's loop whose snapshot classifies as THUMBS_UP and in which
  \<open>client.takeoff()\<close> is not called.
\<close>

theorem left_thumbs_up_counterexample:
  "left_gesture (snapshot_of (0, 0.3, 0.3, 0.3, 0.3) (70, 0, 0)) = THUMBS_UP
   \<and> Client Takeoff \<notin> set (trace (left_hand_iteration thumbs_up_left))"
  by code_simp

text \<open>How statements extend the trace.\<close>

lemma tidy_ret: "tidy (ret x)"
  by (simp add: tidy_def ret_def quiet_def)

lemma tidy_io_emit: "e \<noteq> Raised GloveDisconnectedException \<Longrightarrow> tidy (io (emit e))"
  by (simp add: tidy_def io_def emit_def quiet_def)

lemma tidy_io:
  "tidy (io (print s))" "tidy (io (sleep t))" "tidy (io client_land)" "tidy (io client_takeoff)"
  by (simp_all add: print_def sleep_def client_land_def client_takeoff_def tidy_io_emit)

lemma tidy_forte: "tidy (forte h c)"
  by (simp add: tidy_def forte_def emit_def quiet_def Let_def)

lemma tidy_bind:
  assumes m: "tidy m" and f: "\<And>x. tidy (f x)"
  shows "tidy (bind_stmt m f)"
  unfolding tidy_def
proof
  fix w
  obtain r w1 where mw: "m w = (r, w1)" by (cases "m w")
  from m obtain es1 where es1: "trace w1 = trace w @ es1"
    and r1: "case r of Inr _ \<Rightarrow> quiet es1
             | Inl _ \<Rightarrow> es1 \<noteq> [] \<and> last es1 = Raised GloveDisconnectedException \<and> quiet (butlast es1)"
    using mw unfolding tidy_def by (metis fst_conv snd_conv)
  show "\<exists>es. trace (snd (bind_stmt m f w)) = trace w @ es \<and>
      (case fst (bind_stmt m f w) of
         Inr _ \<Rightarrow> quiet es
       | Inl _ \<Rightarrow> es \<noteq> [] \<and> last es = Raised GloveDisconnectedException \<and> quiet (butlast es))"
  proof (cases r)
    case (Inl e)
    then show ?thesis using mw es1 r1 by (auto simp: bind_stmt_def)
  next
    case (Inr x)
    from f [of x] obtain es2 where es2: "trace (snd (f x w1)) = trace w1 @ es2"
      and r2: "case fst (f x w1) of Inr _ \<Rightarrow> quiet es2
             | Inl _ \<Rightarrow> es2 \<noteq> [] \<and> last es2 = Raised GloveDisconnectedException \<and> quiet (butlast es2)"
      unfolding tidy_def by blast
    have b: "bind_stmt m f w = f x w1"
      using mw Inr by (simp add: bind_stmt_def)
    have q1: "quiet es1" using r1 Inr by simp
    show ?thesis
    proof (intro exI conjI)
      show "trace (snd (bind_stmt m f w)) = trace w @ (es1 @ es2)"
        using b es1 es2 by simp
      show "case fst (bind_stmt m f w) of
         Inr _ \<Rightarrow> quiet (es1 @ es2)
       | Inl _ \<Rightarrow> es1 @ es2 \<noteq> [] \<and> last (es1 @ es2) = Raised GloveDisconnectedException
            \<and> quiet (butlast (es1 @ es2))"
        using r2 q1 unfolding b
        by (auto simp: quiet_def butlast_append split: sum.splits)
    qed
  qed
qed

lemma tidy_seq: "(\<And>m. m \<in> set ms \<Longrightarrow> tidy m) \<Longrightarrow> tidy (seq ms)"
  by (induction ms) (simp_all add: tidy_ret tidy_bind)

lemma tidy_forte_unit: "tidy (forte_unit h c)"
  by (simp add: forte_unit_def tidy_bind tidy_forte tidy_ret)

lemma tidy_sdk:
  "tidy (Forte_SelectHapticWave h i v)" "tidy (Forte_SendHaptic h i n a)"
  "tidy (Forte_SilenceHaptics h)" "tidy (Forte_CalibrateFlat h)" "tidy (Forte_HomeIMU h)"
  "tidy (Forte_GetFingersNormalized h)" "tidy (Forte_GetEulerAngles h)"
  by (simp_all add: Forte_SelectHapticWave_def Forte_SendHaptic_def Forte_SilenceHaptics_def
      Forte_CalibrateFlat_def Forte_HomeIMU_def Forte_GetFingersNormalized_def
      Forte_GetEulerAngles_def tidy_forte_unit tidy_bind tidy_forte tidy_ret)

lemma tidy_if: "tidy a \<Longrightarrow> tidy b \<Longrightarrow> tidy (if c then a else b)"
  by simp

lemmas tidy_intros = tidy_ret tidy_io tidy_sdk

lemma polls_first_forte: "polls_first (forte h c)"
  by (auto simp: polls_first_def forte_def emit_def Let_def)

lemma polls_first_bind:
  assumes m: "polls_first m" and f: "\<And>x. tidy (f x)"
  shows "polls_first (bind_stmt m f)"
  unfolding polls_first_def
proof
  fix w
  obtain r w1 where mw: "m w = (r, w1)" by (cases "m w")
  from m obtain h c es where es: "trace w1 = trace w @ Sdk h c # es"
    using mw unfolding polls_first_def by (metis snd_conv)
  show "\<exists>h c es. trace (snd (bind_stmt m f w)) = trace w @ Sdk h c # es"
  proof (cases r)
    case (Inl e)
    then show ?thesis using mw es by (auto simp: bind_stmt_def)
  next
    case (Inr x)
    from f [of x] obtain es2 where "trace (snd (f x w1)) = trace w1 @ es2"
      unfolding tidy_def by blast
    then show ?thesis using mw es Inr by (auto simp: bind_stmt_def)
  qed
qed

lemma polls_first_select: "polls_first (Forte_SelectHapticWave h i v)"
  by (simp add: Forte_SelectHapticWave_def forte_unit_def polls_first_bind polls_first_forte tidy_ret)

lemma polls_first_seq:
  assumes "polls_first m" and "\<And>x. x \<in> set ms \<Longrightarrow> tidy x"
  shows "polls_first (seq (m # ms))"
  using assms by (simp add: polls_first_bind tidy_seq)

lemma polls_first_setup: "polls_first (seq (map (\<lambda>i. Forte_SelectHapticWave h i v) [0..<6]))"
  unfolding upt_6 list.map
  by (rule polls_first_seq) (auto simp: polls_first_select tidy_sdk)

lemma tidy_left_hand_try: "tidy left_hand_try"
  unfolding left_hand_try_def Let_def
  by (intro tidy_bind tidy_seq tidy_if tidy_ret) (auto simp: tidy_intros intro!: tidy_seq)

lemma tidy_right_hand_try: "tidy right_hand_try"
  unfolding right_hand_try_def Let_def
  by (intro tidy_bind tidy_seq tidy_if tidy_ret) (auto simp: tidy_intros intro!: tidy_seq)

lemma polls_first_left_hand_try: "polls_first left_hand_try"
  unfolding left_hand_try_def Let_def
  apply (rule polls_first_bind)
   apply (rule polls_first_setup)
  apply (intro tidy_bind tidy_seq tidy_if tidy_ret)
                      apply (auto simp: tidy_intros intro!: tidy_seq)
  done

lemma polls_first_right_hand_try: "polls_first right_hand_try"
  unfolding right_hand_try_def Let_def
  apply (rule polls_first_bind)
   apply (rule polls_first_setup)
  apply (intro tidy_bind tidy_seq tidy_if tidy_ret)
                      apply (auto simp: tidy_intros intro!: tidy_seq)
  done

lemma lands_before_poll_resume: "b = [] \<or> is_sdk (hd b) \<Longrightarrow> lands_before_poll b = 0"
  by (cases b) auto

lemma failsafe_quiet: "quiet a \<Longrightarrow> failsafe (a @ b) = failsafe b"
  by (induction a) (auto simp: quiet_def)

lemma turn_shape_failsafe:
  assumes a: "turn_shape a" and b: "failsafe b" "b = [] \<or> is_sdk (hd b)"
  shows "failsafe (a @ b)"
proof -
  from a consider "quiet a"
    | a' where "quiet a'"
        "a = a' @ [Raised GloveDisconnectedException, Stdout ''Gloves are disconnected...\<newline>'',
                   Sleep 1, Client Land]"
    unfolding turn_shape_def by blast
  then show ?thesis
  proof cases
    case 1
    then show ?thesis using b by (simp add: failsafe_quiet)
  next
    case 2
    then show ?thesis
      using b lands_before_poll_resume [OF b(2)] by (simp add: failsafe_quiet)
  qed
qed

text \<open>One turn of \<open>while True\<close>: the \<open>try\<close> body, then the handler if the body raised.\<close>

lemma turn:
  fixes m :: "('a gloves_scheme, unit) glove_stmt"
  assumes t: "tidy m" and p: "polls_first m"
  shows "\<exists>a. trace (case m w of (Inr _, w') \<Rightarrow> w'
                     | (Inl GloveDisconnectedException, w') \<Rightarrow> on_disconnect w') = trace w @ a
              \<and> turn_shape a"
proof -
  obtain r w1 where mw: "m w = (r, w1)" by (cases "m w")
  from t obtain es where es: "trace w1 = trace w @ es"
    and shape: "case r of Inr _ \<Rightarrow> quiet es
             | Inl _ \<Rightarrow> es \<noteq> [] \<and> last es = Raised GloveDisconnectedException \<and> quiet (butlast es)"
    using mw unfolding tidy_def by (metis fst_conv snd_conv)
  from p obtain h c es' where "trace w1 = trace w @ Sdk h c # es'"
    using mw unfolding polls_first_def by (metis snd_conv)
  with es have hd: "es \<noteq> []" "is_sdk (hd es)" by auto
  show ?thesis
  proof (cases r)
    case (Inr x)
    then show ?thesis using mw es shape hd by (auto simp: turn_shape_def)
  next
    case (Inl e)
    then have ne: "es \<noteq> []" and la: "last es = Raised GloveDisconnectedException"
      and q: "quiet (butlast es)"
      using shape by auto
    from ne have "butlast es @ [last es] = es" by simp
    with la have l: "es = butlast es @ [Raised GloveDisconnectedException]" by simp
    have e: "e = GloveDisconnectedException" by (cases e) simp
    have tr: "trace (on_disconnect w1) = trace w @ (butlast es @ [Raised GloveDisconnectedException,
        Stdout ''Gloves are disconnected...\<newline>'', Sleep 1, Client Land])"
      using es l by (simp add: on_disconnect_def client_land_def sleep_def print_def emit_def)
    have "is_sdk (hd (butlast es @ [Raised GloveDisconnectedException,
        Stdout ''Gloves are disconnected...\<newline>'', Sleep 1, Client Land]))"
      using hd l by (cases "butlast es") auto
    then show ?thesis
      using mw Inl e tr q unfolding turn_shape_def
      by (intro exI [of _ "butlast es @ [Raised GloveDisconnectedException,
        Stdout ''Gloves are disconnected...\<newline>'', Sleep 1, Client Land]"]) auto
  qed
qed

lemma left_hand_trace:
  "\<exists>es. trace (left_hand n w) = trace w @ es \<and> failsafe es \<and> (es = [] \<or> is_sdk (hd es))"
proof (induction n arbitrary: w)
  case 0
  then show ?case by simp
next
  case (Suc n)
  from turn [OF tidy_left_hand_try polls_first_left_hand_try, of w]
  obtain a where a: "trace (left_hand_iteration w) = trace w @ a" "turn_shape a"
    unfolding left_hand_iteration_def by blast
  from Suc.IH [of "left_hand_iteration w"]
  obtain b where b: "trace (left_hand n (left_hand_iteration w)) = trace (left_hand_iteration w) @ b"
    "failsafe b" "b = [] \<or> is_sdk (hd b)" by blast
  have "failsafe (a @ b)" using a(2) b(2,3) by (rule turn_shape_failsafe)
  moreover have "is_sdk (hd (a @ b))" using a(2) by (simp add: turn_shape_def)
  ultimately show ?case using a b by (intro exI [of _ "a @ b"]) simp
qed

lemma right_hand_trace:
  "\<exists>es. trace (right_hand n w) = trace w @ es \<and> failsafe es \<and> (es = [] \<or> is_sdk (hd es))"
proof (induction n arbitrary: w)
  case 0
  then show ?case by simp
next
  case (Suc n)
  from turn [OF tidy_right_hand_try polls_first_right_hand_try, of w]
  obtain a where a: "trace (right_hand_iteration w) = trace w @ a" "turn_shape a"
    unfolding right_hand_iteration_def by blast
  from Suc.IH [of "right_hand_iteration w"]
  obtain b where b: "trace (right_hand n (right_hand_iteration w)) = trace (right_hand_iteration w) @ b"
    "failsafe b" "b = [] \<or> is_sdk (hd b)" by blast
  have "failsafe (a @ b)" using a(2) b(2,3) by (rule turn_shape_failsafe)
  moreover have "is_sdk (hd (a @ b))" using a(2) by (simp add: turn_shape_def)
  ultimately show ?case using a b by (intro exI [of _ "a @ b"]) simp
qed

text \<open>
  Claim C4. In any number of turns of either hand's loop, from any state and whatever the
  gloves answer, every \<open>GloveDisconnectedException\<close> is followed by exactly one call of
  \<open>client.land()\<close> before the loop calls a glove again.
\<close>

theorem land_once_after_disconnect:
  "failsafe (events_since w (left_hand n w)) \<and> failsafe (events_since w (right_hand n w))"
  using left_hand_trace [of n w] right_hand_trace [of n w]
  by (auto simp: events_since_def)

theorem land_once_after_disconnect_witness:
  "Raised GloveDisconnectedException \<in> set (events_since dropout (left_hand 2 dropout))
   \<and> failsafe (events_since dropout (left_hand 2 dropout))
   \<and> Raised GloveDisconnectedException \<in> set (events_since dropout (right_hand 2 dropout))
   \<and> failsafe (events_since dropout (right_hand 2 dropout))"
proof -
  have "Raised GloveDisconnectedException \<in> set (events_since dropout (left_hand 2 dropout))"
    by code_simp
  moreover have "Raised GloveDisconnectedException \<in> set (events_since dropout (right_hand 2 dropout))"
    by code_simp
  ultimately show ?thesis
    using land_once_after_disconnect [of dropout 2] by simp
qed

subsection \<open>Calibration\<close>










text \<open>
  Rounding to a double does not cross a whole number below \<open>2\<^sup>5\<^sup>3\<close>: an angle that
  changed by at most 10 degrees has a computed difference of at most 10.
\<close>

lemma round_half_even_le: "y \<le> of_int m \<Longrightarrow> round_half_even y \<le> m"
proof -
  assume a: "y \<le> of_int m"
  then have f: "\<lfloor>y\<rfloor> \<le> m" by (simp add: floor_le_iff)
  have "\<lfloor>y\<rfloor> + 1 \<le> m" if "1 / 2 \<le> y - of_int \<lfloor>y\<rfloor>"
  proof -
    from that have "of_int \<lfloor>y\<rfloor> < y" by linarith
    with a have "of_int \<lfloor>y\<rfloor> < (of_int m :: rat)" by linarith
    then show ?thesis by simp
  qed
  with f show ?thesis
    by (auto simp: round_half_even_def Let_def)
qed

lemma round_half_even_ge: "of_int m \<le> y \<Longrightarrow> m \<le> round_half_even y"
proof -
  assume "of_int m \<le> y"
  then have "m \<le> \<lfloor>y\<rfloor>" by (simp add: le_floor_iff)
  then show ?thesis
    by (auto simp: round_half_even_def Let_def)
qed

lemma ilog2_le:
  assumes "x \<noteq> 0"
  shows "2 powi ilog2 x \<le> \<bar>x\<bar>"
proof -
  obtain p q where pq: "quotient_of \<bar>x\<bar> = (p, q)" by (cases "quotient_of \<bar>x\<bar>")
  then have q: "0 < q" and x: "\<bar>x\<bar> = of_int p / of_int q"
    by (simp_all add: quotient_of_denom_pos quotient_of_div)
  have "0 < \<bar>x\<bar>" using assms by simp
  with x q have p: "0 < p"
    by (simp add: zero_less_divide_iff)
  let ?d = "bitlen p - bitlen q"
  show ?thesis
  proof (cases "2 powi ?d \<le> \<bar>x\<bar>")
    case True
    then show ?thesis by (simp add: ilog2_def pq)
  next
    case False
    have bp: "2 ^ nat (bitlen p - 1) \<le> p" and bq: "q < 2 ^ nat (bitlen q)"
      using bitlen_bounds [OF p] bitlen_bounds [OF q] by simp_all
    have bpos: "0 < bitlen p" "0 < bitlen q"
      using p q bitlen_nonneg [of p] bitlen_nonneg [of q] bitlen_eq_zero_iff [of p]
        bitlen_eq_zero_iff [of q] by linarith+
    have "(2::rat) powi (?d - 1) = 2 powi (bitlen p - 1) / 2 powi bitlen q"
      by (simp add: power_int_diff)
    also have "\<dots> = 2 ^ nat (bitlen p - 1) / 2 ^ nat (bitlen q)"
      using bpos by (simp add: power_int_def)
    also have "\<dots> \<le> of_int p / 2 ^ nat (bitlen q)"
    proof -
      have "(2::rat) ^ nat (bitlen p - 1) \<le> of_int p"
        using bp by (metis of_int_le_iff of_int_numeral of_int_power)
      then show ?thesis by (simp add: divide_right_mono)
    qed
    also have "\<dots> \<le> of_int p / of_int q"
    proof -
      have "(of_int q :: rat) \<le> 2 ^ nat (bitlen q)"
        using bq by (metis less_imp_le of_int_le_iff of_int_numeral of_int_power)
      then show ?thesis
        using p q by (simp add: frac_le)
    qed
    finally have "(2::rat) powi (?d - 1) \<le> \<bar>x\<bar>"
      by (simp only: x)
    moreover have "ilog2 x = ?d - 1"
      using False by (simp add: ilog2_def pq)
    ultimately show ?thesis
      by simp
  qed
qed

lemma fl64_grid:
  assumes x: "\<bar>x\<bar> \<le> of_int n" and n: "of_int n < (2::rat) ^ 53"
  shows "\<bar>fl64 x\<bar> \<le> of_int n"
proof (cases "x = 0")
  case True
  then show ?thesis using x by (simp add: fl64_def)
next
  case False
  define e where "e = ilog2 x"
  define u :: rat where "u = 2 powi (e - 52)"
  have "2 powi e \<le> \<bar>x\<bar>" unfolding e_def by (rule ilog2_le [OF False])
  with x n have "(2::rat) powi e < 2 powi 53" by simp
  then have e: "e < 53"
    by (rule power_int_le_imp_less_exp [rotated]) simp_all
  have u: "0 < u" by (simp add: u_def)
  define M where "M = n * 2 ^ nat (52 - e)"
  have Mu: "of_int M * u = of_int n"
    using e by (simp add: M_def u_def power_int_def nat_diff_distrib field_simps)
  have "x / u \<le> of_int M" "of_int (- M) \<le> x / u"
    using x u Mu by (simp_all add: field_simps abs_le_iff) 
  then have "round_half_even (x / u) \<le> M" "- M \<le> round_half_even (x / u)"
    by (simp_all add: round_half_even_le round_half_even_ge)
  then have "\<bar>of_int (round_half_even (x / u)) :: rat\<bar> \<le> of_int M"
    by (simp add: abs_le_iff)
  then have "\<bar>of_int (round_half_even (x / u)) * u\<bar> \<le> of_int M * u"
    using u by (simp add: abs_mult)
  then show ?thesis
    using False by (simp add: fl64_def Let_def e_def [symmetric] u_def [symmetric] Mu)
qed

lemma float_sub_within: "\<bar>a - b\<bar> \<le> 10 \<Longrightarrow> \<bar>float_sub a b\<bar> \<le> 10"
  using fl64_grid [of "a - b" 10] by (simp add: float_sub_def)

lemma within_ten_exact:
  assumes "\<bar>x - x'\<bar> \<le> 10" and "\<bar>y - y'\<bar> \<le> 10" and "\<bar>z - z'\<bar> \<le> 10"
  shows "within_ten (y, z, x) (y', z', x')"
  using assms by (simp add: within_ten_def float_sub_within)






end
